theory Spec2Isabelle
  imports Main "HOL-Library.Word"
begin

section \<open>Values of the JavaScript program\<close>

text \<open>
  The advisory backend (\<^verbatim>\<open>src/unnamed/part_000\<close>) is an Express server whose
  route \<^verbatim>\<open>POST /api/recommend\<close> reads a JSON body, loads \<^verbatim>\<open>data/rules.json\<close>
  and answers with a JSON document. Every value the handler touches comes out of a JSON
  parser (\<^verbatim>\<open>express.json()\<close> for the body, \<^verbatim>\<open>JSON.parse\<close> for the rule file), so
  the values are the JSON values. An object is the list of its own properties in
  insertion order; a parsed object holds each key once, and a lookup takes the first
  binding of a key.

  Strings are lists of code units below 256 (ISO 8859-1). Numbers are the integers from
  \<open>- 2^53\<close> to \<open>2^53 - 1\<close>, kept as the signed value of a 54-bit word: a double holds
  each of them exactly, and \<^verbatim>\<open>String\<close> prints each as its decimal digits (\<open>JNum 0\<close>
  stands for both zeros). Fractions and numbers of larger magnitude, which \<^verbatim>\<open>String\<close>
  prints rounded or with an exponent, are not values of the model. JavaScript's
  \<^verbatim>\<open>undefined\<close> is \<open>None\<close> of \<open>json option\<close>.
\<close>

datatype json =
    JNull
  | JBool bool
  | JNum "54 word"
  | JStr string
  | JArr "json list"
  | JObj "(string \<times> json) list"

datatype js_error = TypeError

text \<open>ToBoolean: \<^verbatim>\<open>null\<close>, \<^verbatim>\<open>false\<close>, zero and the empty string are falsy; arrays and
  objects are truthy, also when empty.\<close>

fun truthy :: "json \<Rightarrow> bool" where
  "truthy JNull = False"
| "truthy (JBool b) = b"
| "truthy (JNum n) = (n \<noteq> 0)"
| "truthy (JStr s) = (s \<noteq> [])"
| "truthy (JArr xs) = True"
| "truthy (JObj kvs) = True"

fun truthy_value :: "json option \<Rightarrow> bool" where
  "truthy_value None = False"
| "truthy_value (Some v) = truthy v"

text \<open>The operator \<^verbatim>\<open>a || b\<close> with a right operand that is always defined.\<close>

fun js_or :: "json option \<Rightarrow> json \<Rightarrow> json" where
  "js_or None d = d"
| "js_or (Some v) d = (if truthy v then v else d)"

text \<open>
  Property read \<^verbatim>\<open>v.k\<close>. Reading from \<^verbatim>\<open>null\<close> throws a TypeError. An object gives
  its own property or \<^verbatim>\<open>undefined\<close>. The handler reads only the names
  \<^verbatim>\<open>soilType\<close>, \<^verbatim>\<open>crop\<close>, \<^verbatim>\<open>region\<close>, \<^verbatim>\<open>rules\<close>, \<^verbatim>\<open>soil\<close>, \<^verbatim>\<open>sowingTime\<close>,
  \<^verbatim>\<open>irrigation\<close>, \<^verbatim>\<open>fertilizer\<close> and \<^verbatim>\<open>notes\<close>; no prototype of a boolean, number,
  string, array or object defines one of them, so every other value gives
  \<^verbatim>\<open>undefined\<close>.
\<close>

fun get_prop :: "json \<Rightarrow> string \<Rightarrow> js_error + json option" where
  "get_prop JNull k = Inl TypeError"
| "get_prop (JObj kvs) k = Inr (map_of kvs k)"
| "get_prop v k = Inr None"

subsection \<open>String conversion\<close>

text \<open>\<^verbatim>\<open>Number.prototype.toString\<close> on the integers of the model: the decimal digits,
  after a minus sign when the number is negative.\<close>

function digits :: "int \<Rightarrow> string" where
  "digits n = (if n < 10 then [char_of (48 + n)] else digits (n div 10) @ [char_of (48 + n mod 10)])"
  by pat_completeness auto
termination
  by (relation "measure nat") auto

declare digits.simps [simp del]

definition number_to_string :: "int \<Rightarrow> string" where
  "number_to_string n = (if n < 0 then CHR ''-'' # digits (- n) else digits n)"

text \<open>
  \<^verbatim>\<open>String(v)\<close>. A primitive prints as itself. An array prints through
  \<^verbatim>\<open>Array.prototype.join\<close>: its elements converted in turn and separated by commas,
  \<^verbatim>\<open>null\<close> elements printing as the empty string. An object is converted by
  OrdinaryToPrimitive, which calls \<^verbatim>\<open>toString\<close> and then \<^verbatim>\<open>valueOf\<close>: the inherited
  \<^verbatim>\<open>Object.prototype.toString\<close> answers \<^verbatim>\<open>[object Object]\<close>, but an own property
  named \<^verbatim>\<open>toString\<close> of a parsed object is never callable and hides it, and
  \<^verbatim>\<open>valueOf\<close> (inherited, giving the object back, or own and not callable) yields no
  primitive either, so the conversion throws a TypeError.
\<close>

fun ToString :: "json \<Rightarrow> js_error + string"
  and join :: "json list \<Rightarrow> js_error + string" where
  "ToString JNull = Inr ''null''"
| "ToString (JBool b) = Inr (if b then ''true'' else ''false'')"
| "ToString (JNum n) = Inr (number_to_string (sint n))"
| "ToString (JStr s) = Inr s"
| "ToString (JArr xs) = join xs"
| "ToString (JObj kvs) =
     (if map_of kvs ''toString'' \<noteq> None then Inl TypeError else Inr ''[object Object]'')"
| "join [] = Inr ''''"
| "join (x # xs) =
     (case (if x = JNull then Inr '''' else ToString x) of
        Inl e \<Rightarrow> Inl e
      | Inr s \<Rightarrow>
          if xs = [] then Inr s
          else (case join xs of Inl e \<Rightarrow> Inl e | Inr t \<Rightarrow> Inr (s @ '','' @ t)))"

fun String :: "json option \<Rightarrow> js_error + string" where
  "String None = Inr ''undefined''"
| "String (Some v) = ToString v"

text \<open>
  \<^verbatim>\<open>String.prototype.toLowerCase\<close> on code units below 256: the letters A to Z and the
  capital letters of ISO 8859-1 (0xC0 to 0xDE, without the multiplication sign 0xD7)
  move up by 32; every other code unit is its own lower case.
\<close>

definition lower_char :: "char \<Rightarrow> char" where
  "lower_char c =
     (let n = (of_char c :: nat)
      in if (65 \<le> n \<and> n \<le> 90) \<or> (192 \<le> n \<and> n \<le> 222 \<and> n \<noteq> 215)
         then char_of (n + 32) else c)"

definition toLowerCase :: "string \<Rightarrow> string" where
  "toLowerCase s = map lower_char s"

section \<open>The rule file\<close>

text \<open>
  The handler's world: what \<^verbatim>\<open>fs.readFileSync\<close> followed by \<^verbatim>\<open>JSON.parse\<close> does
  on \<^verbatim>\<open>data/rules.json\<close> (either throws, or the document parses to a value), and the
  log of the input and output the process has performed so far.
\<close>

datatype rules_json = ReadThrows | ParseThrows | ParsesTo json

datatype io_event = ReadFileSync | ConsoleError string

record world =
  rules_file :: rules_json
  io_log :: "io_event list"

text \<open>\<^verbatim>\<open>loadRules\<close> (lines 18 to 26): the parsed document, or \<^verbatim>\<open>{ rules: [] }\<close> after
  logging when reading or parsing throws.\<close>

definition loadRules :: "world \<Rightarrow> json \<times> world" where
  "loadRules w =
     (case rules_file w of
        ParsesTo raw \<Rightarrow> (raw, w\<lparr>io_log := io_log w @ [ReadFileSync]\<rparr>)
      | _ \<Rightarrow>
          (JObj [(''rules'', JArr [])],
           w\<lparr>io_log := io_log w @ [ReadFileSync, ConsoleError ''Failed to read rules.json'']\<rparr>))"

section \<open>The handler of POST /api/recommend\<close>

record response =
  status :: nat
  body :: json

text \<open>\<^verbatim>\<open>res.json(obj)\<close> answers with status 200 unless \<^verbatim>\<open>res.status\<close> was called. The
  body is the serialised object; \<^verbatim>\<open>JSON.stringify\<close> leaves out a property whose value
  is \<^verbatim>\<open>undefined\<close>.\<close>

fun field :: "string \<Rightarrow> json option \<Rightarrow> (string \<times> json) list" where
  "field k None = []"
| "field k (Some v) = [(k, v)]"

text \<open>\<^verbatim>\<open>Array.prototype.find\<close>: the first element on which the callback answers true;
  a callback that throws ends the scan.\<close>

fun find_js :: "('a \<Rightarrow> js_error + bool) \<Rightarrow> 'a list \<Rightarrow> js_error + 'a option" where
  "find_js p [] = Inr None"
| "find_js p (x # xs) =
     (case p x of
        Inl e \<Rightarrow> Inl e
      | Inr b \<Rightarrow> if b then Inr (Some x) else find_js p xs)"

text \<open>The method call \<^verbatim>\<open>v.find(p)\<close>: only an array has a callable \<^verbatim>\<open>find\<close>.\<close>

fun call_find :: "json \<Rightarrow> (json \<Rightarrow> js_error + bool) \<Rightarrow> js_error + json option" where
  "call_find (JArr xs) p = find_js p xs"
| "call_find v p = Inl TypeError"

text \<open>The callback of line 47,
  \<^verbatim>\<open>r => r.soil === normalizedSoil && r.crop === normalizedCrop\<close>. Strict equality with a
  string holds for that same string only.\<close>

definition rule_matches :: "string \<Rightarrow> string \<Rightarrow> json \<Rightarrow> js_error + bool" where
  "rule_matches normalizedSoil normalizedCrop r =
     (case get_prop r ''soil'' of
        Inl e \<Rightarrow> Inl e
      | Inr soil \<Rightarrow>
          if soil = Some (JStr normalizedSoil)
          then (case get_prop r ''crop'' of
                  Inl e \<Rightarrow> Inl e
                | Inr crop \<Rightarrow> Inr (crop = Some (JStr normalizedCrop)))
          else Inr False)"

definition missing_fields :: response where
  "missing_fields =
     \<lparr>status = 400, body = JObj [(''error'', JStr ''Missing required fields: soilType and crop'')]\<rparr>"

definition generic_guidance :: json where
  "generic_guidance =
     JObj [(''sowingTime'', JStr ''Consult local agri-extension for optimal window''),
           (''irrigation'', JStr ''1-2 times/week depending on rainfall''),
           (''fertilizer'', JStr ''Balanced NPK (e.g., 10-26-26) at recommended doses''),
           (''notes'', JStr ''No exact match found. Displaying generic guidance.'')]"

text \<open>Lines 51 to 61: the answer when no rule matches.\<close>

definition generic_response :: "string \<Rightarrow> string \<Rightarrow> json option \<Rightarrow> response" where
  "generic_response normalizedSoil normalizedCrop region =
     \<lparr>status = 200,
      body = JObj [(''soilType'', JStr normalizedSoil),
                   (''crop'', JStr normalizedCrop),
                   (''region'', js_or region (JStr [])),
                   (''recommendation'', generic_guidance)]\<rparr>"

text \<open>Lines 64 to 76: the answer built from the rule found.\<close>

definition rule_response ::
  "string \<Rightarrow> string \<Rightarrow> json option \<Rightarrow> json \<Rightarrow> js_error + response" where
  "rule_response normalizedSoil normalizedCrop region match =
     (case get_prop match ''sowingTime'' of Inl e \<Rightarrow> Inl e | Inr sowingTime \<Rightarrow>
     (case get_prop match ''irrigation'' of Inl e \<Rightarrow> Inl e | Inr irrigation \<Rightarrow>
     (case get_prop match ''fertilizer'' of Inl e \<Rightarrow> Inl e | Inr fertilizer \<Rightarrow>
     (case get_prop match ''notes'' of Inl e \<Rightarrow> Inl e | Inr notes \<Rightarrow>
        Inr \<lparr>status = 200,
             body = JObj [(''soilType'', JStr normalizedSoil),
                          (''crop'', JStr normalizedCrop),
                          (''region'', js_or region (JStr [])),
                          (''recommendation'',
                           JObj (field ''sowingTime'' sowingTime @
                                 field ''irrigation'' irrigation @
                                 field ''fertilizer'' fertilizer @
                                 [(''notes'', js_or notes JNull)]))]\<rparr>))))"

text \<open>Lines 50 to 76: \<^verbatim>\<open>if (!match)\<close> chooses between the two.\<close>

definition build_response ::
  "string \<Rightarrow> string \<Rightarrow> json option \<Rightarrow> json option \<Rightarrow> js_error + response" where
  "build_response normalizedSoil normalizedCrop region match =
     (case match of
        None \<Rightarrow> Inr (generic_response normalizedSoil normalizedCrop region)
      | Some m \<Rightarrow>
          if \<not> truthy m then Inr (generic_response normalizedSoil normalizedCrop region)
          else rule_response normalizedSoil normalizedCrop region m)"

text \<open>Lines 42 to 76, after the rule file is loaded: normalise, search, answer.\<close>

definition resolve ::
  "json \<Rightarrow> json option \<Rightarrow> json option \<Rightarrow> json option \<Rightarrow> js_error + response" where
  "resolve data soilType crop region =
     (case String soilType of Inl e \<Rightarrow> Inl e | Inr s \<Rightarrow>
     (case String crop of Inl e \<Rightarrow> Inl e | Inr c \<Rightarrow>
     (case get_prop data ''rules'' of Inl e \<Rightarrow> Inl e | Inr rules \<Rightarrow>
     (case call_find (js_or rules (JArr [])) (rule_matches (toLowerCase s) (toLowerCase c)) of
        Inl e \<Rightarrow> Inl e
      | Inr match \<Rightarrow> build_response (toLowerCase s) (toLowerCase c) region match))))"

text \<open>
  The handler (lines 32 to 77). \<open>req_body\<close> is \<^verbatim>\<open>req.body\<close> as the JSON body parser
  leaves it: \<^verbatim>\<open>undefined\<close> when nothing was parsed, a JSON value otherwise. The result is
  the response sent, or the exception that leaves the handler, with the world after the
  call.
\<close>

definition post_api_recommend :: "json option \<Rightarrow> world \<Rightarrow> (js_error + response) \<times> world" where
  "post_api_recommend req_body w =
     (let b = js_or req_body (JObj []) in
      (case get_prop b ''soilType'' of Inl e \<Rightarrow> (Inl e, w) | Inr soilType \<Rightarrow>
      (case get_prop b ''crop'' of Inl e \<Rightarrow> (Inl e, w) | Inr crop \<Rightarrow>
      (case get_prop b ''region'' of Inl e \<Rightarrow> (Inl e, w) | Inr region \<Rightarrow>
        if \<not> truthy_value soilType \<or> \<not> truthy_value crop then (Inr missing_fields, w)
        else (case loadRules w of (data, w') \<Rightarrow> (resolve data soilType crop region, w'))))))"

section \<open>Vocabulary of the specification\<close>

text \<open>The field \<open>k\<close> of a request: an own property of an object body. A missing body
  and a body that is no object have no fields.\<close>

definition request_field :: "json option \<Rightarrow> string \<Rightarrow> json option" where
  "request_field req_body k = (case req_body of Some (JObj kvs) \<Rightarrow> map_of kvs k | _ \<Rightarrow> None)"

text \<open>A valid query: \<^verbatim>\<open>soilType\<close> and \<^verbatim>\<open>crop\<close> are the non-empty strings \<open>s\<close> and \<open>c\<close>.\<close>

definition valid_query :: "json option \<Rightarrow> string \<Rightarrow> string \<Rightarrow> bool" where
  "valid_query req_body s c \<longleftrightarrow>
     request_field req_body ''soilType'' = Some (JStr s) \<and> s \<noteq> [] \<and>
     request_field req_body ''crop'' = Some (JStr c) \<and> c \<noteq> []"

text \<open>The rule table of a parsed document: the array that line 46 scans, \<^verbatim>\<open>data.rules || []\<close>.
  There is none when the document is \<^verbatim>\<open>null\<close> or its \<^verbatim>\<open>rules\<close> is a truthy value
  other than an array.\<close>

definition rule_list :: "json \<Rightarrow> json list option" where
  "rule_list data =
     (case get_prop data ''rules'' of
        Inl e \<Rightarrow> None
      | Inr rules \<Rightarrow> (case js_or rules (JArr []) of JArr rs \<Rightarrow> Some rs | _ \<Rightarrow> None))"

text \<open>Fields of a response body and of its nested \<^verbatim>\<open>recommendation\<close>.\<close>

definition response_field :: "response \<Rightarrow> string \<Rightarrow> json option" where
  "response_field r k = (case body r of JObj kvs \<Rightarrow> map_of kvs k | _ \<Rightarrow> None)"

definition recommendation_field :: "response \<Rightarrow> string \<Rightarrow> json option" where
  "recommendation_field r k =
     (case response_field r ''recommendation'' of Some (JObj kvs) \<Rightarrow> map_of kvs k | _ \<Rightarrow> None)"



text \<open>The rule key of a well-formed rule: an object whose \<^verbatim>\<open>soil\<close> and \<^verbatim>\<open>crop\<close> are
  strings.\<close>

definition rule_key :: "json \<Rightarrow> (string \<times> string) option" where
  "rule_key r =
     (case r of
        JObj kvs \<Rightarrow>
          (case (map_of kvs ''soil'', map_of kvs ''crop'') of
             (Some (JStr k1), Some (JStr k2)) \<Rightarrow> Some (k1, k2)
           | _ \<Rightarrow> None)
      | _ \<Rightarrow> None)"

text \<open>The rule carries the pair \<open>(s, c)\<close> up to letter case.\<close>

definition same_pair_ci :: "string \<Rightarrow> string \<Rightarrow> json \<Rightarrow> bool" where
  "same_pair_ci s c r =
     (case rule_key r of
        Some (k1, k2) \<Rightarrow> toLowerCase k1 = toLowerCase s \<and> toLowerCase k2 = toLowerCase c
      | None \<Rightarrow> False)"

text \<open>The rule is well-formed and stores its key in lower case, as the data model of the
  specification says a rule does.\<close>

definition lowercase_rule :: "json \<Rightarrow> bool" where
  "lowercase_rule r =
     (case rule_key r of
        Some (k1, k2) \<Rightarrow> toLowerCase k1 = k1 \<and> toLowerCase k2 = k2
      | None \<Rightarrow> False)"



subsection \<open>Example data\<close>

text \<open>The rule of the specification's example, a later rule with the same key, a rule
  whose key is capitalised, a rule with another key, and a world whose rule file holds a
  given rule array.\<close>

definition example_rule :: json where
  "example_rule =
     JObj [(''soil'', JStr ''clay''), (''crop'', JStr ''rice''), (''sowingTime'', JStr ''June''),
           (''irrigation'', JStr ''Daily''), (''fertilizer'', JStr ''Urea'')]"

definition later_rule :: json where
  "later_rule =
     JObj [(''soil'', JStr ''clay''), (''crop'', JStr ''rice''), (''sowingTime'', JStr ''July''),
           (''irrigation'', JStr ''Weekly''), (''fertilizer'', JStr ''DAP''),
           (''notes'', JStr ''Second entry'')]"

definition capitalised_rule :: json where
  "capitalised_rule =
     JObj [(''soil'', JStr ''Clay''), (''crop'', JStr ''Rice''), (''sowingTime'', JStr ''June''),
           (''irrigation'', JStr ''Daily''), (''fertilizer'', JStr ''Urea'')]"

definition wheat_rule :: json where
  "wheat_rule =
     JObj [(''soil'', JStr ''loam''), (''crop'', JStr ''wheat''),
           (''sowingTime'', JStr ''November''), (''irrigation'', JStr ''Fortnightly''),
           (''fertilizer'', JStr ''NPK'')]"

definition example_world :: "json list \<Rightarrow> world" where
  "example_world rs = \<lparr>rules_file = ParsesTo (JObj [(''rules'', JArr rs)]), io_log = []\<rparr>"

section \<open>Basic facts\<close>

lemma body_fields: "get_prop (js_or req_body (JObj [])) k = Inr (request_field req_body k)"
proof (cases req_body)
  case None
  then show ?thesis by (simp add: request_field_def)
next
  case (Some v)
  then show ?thesis by (cases v) (simp_all add: request_field_def)
qed

lemma handler_invalid:
  "\<not> truthy_value (request_field req_body ''soilType'') \<or>
   \<not> truthy_value (request_field req_body ''crop'')
   \<Longrightarrow> post_api_recommend req_body w = (Inr missing_fields, w)"
  unfolding post_api_recommend_def Let_def body_fields by auto

lemma handler_valid:
  "truthy_value (request_field req_body ''soilType'') \<Longrightarrow>
   truthy_value (request_field req_body ''crop'') \<Longrightarrow>
   post_api_recommend req_body w =
     (resolve (fst (loadRules w)) (request_field req_body ''soilType'')
        (request_field req_body ''crop'') (request_field req_body ''region''),
      snd (loadRules w))"
  unfolding post_api_recommend_def Let_def body_fields by (simp add: case_prod_beta)

lemma valid_query_truthy:
  "valid_query req_body s c \<Longrightarrow>
   truthy_value (request_field req_body ''soilType'') \<and>
   truthy_value (request_field req_body ''crop'')"
  by (simp add: valid_query_def)

lemma loadRules_parsed:
  "rules_file w = ParsesTo data \<Longrightarrow>
   loadRules w = (data, w\<lparr>io_log := io_log w @ [ReadFileSync]\<rparr>)"
  by (simp add: loadRules_def)

lemma loadRules_failed:
  "rules_file w = ReadThrows \<or> rules_file w = ParseThrows \<Longrightarrow>
   loadRules w =
     (JObj [(''rules'', JArr [])],
      w\<lparr>io_log := io_log w @ [ReadFileSync, ConsoleError ''Failed to read rules.json'']\<rparr>)"
  by (auto simp add: loadRules_def)

lemma rule_response_ok:
  "rule_response ns nc region m = Inr r \<Longrightarrow> status r = 200 \<and> response_field r ''error'' = None"
  unfolding rule_response_def
  by (auto simp add: response_field_def split: sum.splits)

lemma build_response_ok:
  "build_response ns nc region match = Inr r \<Longrightarrow>
   status r = 200 \<and> response_field r ''error'' = None"
  unfolding build_response_def
  by (auto simp add: generic_response_def response_field_def
      dest: rule_response_ok split: option.splits if_splits)

lemma resolve_ok:
  "resolve data soil crop region = Inr r \<Longrightarrow> status r = 200 \<and> response_field r ''error'' = None"
  unfolding resolve_def
  by (auto dest: build_response_ok split: sum.splits)

lemma resolve_strings:
  "rule_list data = Some rs \<Longrightarrow>
   resolve data (Some (JStr s)) (Some (JStr c)) region =
     (case find_js (rule_matches (toLowerCase s) (toLowerCase c)) rs of
        Inl e \<Rightarrow> Inl e
      | Inr match \<Rightarrow> build_response (toLowerCase s) (toLowerCase c) region match)"
  unfolding resolve_def rule_list_def
  by (auto split: sum.splits json.splits)

lemma handler_query:
  assumes "valid_query req_body s c" and "rules_file w = ParsesTo data"
    and "rule_list data = Some rs"
  shows "post_api_recommend req_body w =
     (case find_js (rule_matches (toLowerCase s) (toLowerCase c)) rs of
        Inl e \<Rightarrow> Inl e
      | Inr match \<Rightarrow>
          build_response (toLowerCase s) (toLowerCase c) (request_field req_body ''region'') match,
      w\<lparr>io_log := io_log w @ [ReadFileSync]\<rparr>)"
proof -
  have "post_api_recommend req_body w =
     (resolve (fst (loadRules w)) (request_field req_body ''soilType'')
        (request_field req_body ''crop'') (request_field req_body ''region''),
      snd (loadRules w))"
    using valid_query_truthy [OF assms(1)] by (simp add: handler_valid)
  also have "\<dots> = (resolve data (Some (JStr s)) (Some (JStr c)) (request_field req_body ''region''),
      w\<lparr>io_log := io_log w @ [ReadFileSync]\<rparr>)"
    using assms(1) by (simp add: loadRules_parsed [OF assms(2)] valid_query_def)
  finally show ?thesis
    by (simp add: resolve_strings [OF assms(3)])
qed

lemma rule_list_empty: "rule_list (JObj [(''rules'', JArr [])]) = Some []"
  by (simp add: rule_list_def)

lemma handler_query_load_failed:
  assumes "valid_query req_body s c" and "rules_file w = ReadThrows \<or> rules_file w = ParseThrows"
  shows "post_api_recommend req_body w =
     (Inr (generic_response (toLowerCase s) (toLowerCase c) (request_field req_body ''region'')),
      w\<lparr>io_log := io_log w @ [ReadFileSync, ConsoleError ''Failed to read rules.json'']\<rparr>)"
proof -
  have "post_api_recommend req_body w =
     (resolve (fst (loadRules w)) (request_field req_body ''soilType'')
        (request_field req_body ''crop'') (request_field req_body ''region''),
      snd (loadRules w))"
    using valid_query_truthy [OF assms(1)] by (simp add: handler_valid)
  also have "\<dots> = (resolve (JObj [(''rules'', JArr [])]) (Some (JStr s)) (Some (JStr c))
        (request_field req_body ''region''),
      w\<lparr>io_log := io_log w @ [ReadFileSync, ConsoleError ''Failed to read rules.json'']\<rparr>)"
    using assms(1) by (simp add: loadRules_failed [OF assms(2)] valid_query_def)
  finally show ?thesis
    by (simp add: resolve_strings [OF rule_list_empty] build_response_def)
qed

lemma find_js_none:
  "\<forall>r \<in> set rs. p r = Inr False \<Longrightarrow> find_js p rs = Inr None"
  by (induction rs) simp_all

lemma find_js_first:
  "\<forall>r \<in> set pre. p r = Inr False \<Longrightarrow> p x = Inr True \<Longrightarrow>
   find_js p (pre @ x # post) = Inr (Some x)"
  by (induction pre) simp_all

lemma rule_matches_object:
  "rule_matches ns nc (JObj kvs) =
     Inr (map_of kvs ''soil'' = Some (JStr ns) \<and> map_of kvs ''crop'' = Some (JStr nc))"
  by (simp add: rule_matches_def)

lemma rule_matches_data:
  "r \<noteq> JNull \<Longrightarrow>
   rule_matches ns nc r =
     Inr (\<exists>kvs. r = JObj kvs \<and> map_of kvs ''soil'' = Some (JStr ns) \<and>
                map_of kvs ''crop'' = Some (JStr nc))"
  by (cases r) (simp_all add: rule_matches_def)

lemma no_rule_with_pair:
  assumes "JNull \<notin> set rs"
    and "\<forall>kvs. JObj kvs \<in> set rs \<longrightarrow>
           map_of kvs ''soil'' \<noteq> Some (JStr ns) \<or> map_of kvs ''crop'' \<noteq> Some (JStr nc)"
  shows "\<forall>r \<in> set rs. rule_matches ns nc r = Inr False"
proof
  fix r
  assume r: "r \<in> set rs"
  with assms(1) have "r \<noteq> JNull" by auto
  from rule_matches_data [OF this, of ns nc] assms(2) r
  show "rule_matches ns nc r = Inr False" by auto
qed

lemma build_response_object:
  "build_response ns nc region (Some (JObj kvs)) =
     Inr \<lparr>status = 200,
          body = JObj [(''soilType'', JStr ns), (''crop'', JStr nc),
                       (''region'', js_or region (JStr [])),
                       (''recommendation'',
                        JObj (field ''sowingTime'' (map_of kvs ''sowingTime'') @
                              field ''irrigation'' (map_of kvs ''irrigation'') @
                              field ''fertilizer'' (map_of kvs ''fertilizer'') @
                              [(''notes'', js_or (map_of kvs ''notes'') JNull)]))]\<rparr>"
  by (simp add: build_response_def rule_response_def)

lemma generic_fields:
  "recommendation_field (generic_response ns nc region) k = map_of
     [(''sowingTime'', JStr ''Consult local agri-extension for optimal window''),
      (''irrigation'', JStr ''1-2 times/week depending on rainfall''),
      (''fertilizer'', JStr ''Balanced NPK (e.g., 10-26-26) at recommended doses''),
      (''notes'', JStr ''No exact match found. Displaying generic guidance.'')] k"
  by (simp add: recommendation_field_def response_field_def generic_response_def generic_guidance_def)

lemma lower_examples:
  "toLowerCase ''sandy'' = ''sandy''" "toLowerCase ''maize'' = ''maize''"
  "toLowerCase ''Clay'' = ''clay''" "toLowerCase ''RICE'' = ''rice''"
  "toLowerCase ''clay'' = ''clay''" "toLowerCase ''rice'' = ''rice''"
  "toLowerCase ''wheat'' = ''wheat''"
  by code_simp+

section \<open>Validation\<close>

text \<open>
  Claim C3. A request whose \<^verbatim>\<open>soilType\<close> or \<^verbatim>\<open>crop\<close> is missing or the empty string is
  answered with status 400 and a body holding an \<^verbatim>\<open>error\<close> message, and the world is left
  as it was: the rule file is not read. A request in which both are non-empty strings is
  never answered with that validation error: whatever response it gets has status 200 and
  no \<^verbatim>\<open>error\<close> field. The field \<^verbatim>\<open>region\<close> plays no part in either.
\<close>

theorem validation_error:
  "((request_field req_body ''soilType'' = None \<or>
     request_field req_body ''soilType'' = Some (JStr []) \<or>
     request_field req_body ''crop'' = None \<or>
     request_field req_body ''crop'' = Some (JStr []))
    \<longrightarrow> post_api_recommend req_body w = (Inr missing_fields, w) \<and>
        status missing_fields = 400 \<and>
        response_field missing_fields ''error'' =
          Some (JStr ''Missing required fields: soilType and crop''))
   \<and> (valid_query req_body s c
    \<longrightarrow> fst (post_api_recommend req_body w) \<noteq> Inr missing_fields \<and>
        (\<forall>r. fst (post_api_recommend req_body w) = Inr r
           \<longrightarrow> status r = 200 \<and> response_field r ''error'' = None))"
proof (intro conjI impI)
  assume "request_field req_body ''soilType'' = None \<or>
     request_field req_body ''soilType'' = Some (JStr []) \<or>
     request_field req_body ''crop'' = None \<or>
     request_field req_body ''crop'' = Some (JStr [])"
  then have "\<not> truthy_value (request_field req_body ''soilType'') \<or>
     \<not> truthy_value (request_field req_body ''crop'')"
    by auto
  then show "post_api_recommend req_body w = (Inr missing_fields, w)"
    by (rule handler_invalid)
next
  show "status missing_fields = 400"
    by (simp add: missing_fields_def)
next
  show "response_field missing_fields ''error'' =
          Some (JStr ''Missing required fields: soilType and crop'')"
    by (simp add: missing_fields_def response_field_def)
next
  assume v: "valid_query req_body s c"
  have eq: "fst (post_api_recommend req_body w) =
      resolve (fst (loadRules w)) (request_field req_body ''soilType'')
        (request_field req_body ''crop'') (request_field req_body ''region'')"
    using valid_query_truthy [OF v] by (simp add: handler_valid)
  have ok: "\<And>r. fst (post_api_recommend req_body w) = Inr r \<Longrightarrow>
      status r = 200 \<and> response_field r ''error'' = None"
    unfolding eq by (rule resolve_ok)
  show "fst (post_api_recommend req_body w) \<noteq> Inr missing_fields"
  proof
    assume "fst (post_api_recommend req_body w) = Inr missing_fields"
    from ok [OF this] show False by (simp add: missing_fields_def)
  qed
  show "\<forall>r. fst (post_api_recommend req_body w) = Inr r
           \<longrightarrow> status r = 200 \<and> response_field r ''error'' = None"
    using ok by blast
qed

theorem validation_error_witness:
  "post_api_recommend (Some (JObj [(''soilType'', JStr []), (''crop'', JStr ''rice'')]))
     \<lparr>rules_file = ParsesTo (JObj [(''rules'', JArr [])]), io_log = []\<rparr>
   = (Inr missing_fields, \<lparr>rules_file = ParsesTo (JObj [(''rules'', JArr [])]), io_log = []\<rparr>)
   \<and> fst (post_api_recommend (Some (JObj [(''soilType'', JStr ''sandy''), (''crop'', JStr ''maize'')]))
       \<lparr>rules_file = ParsesTo (JObj [(''rules'', JArr [])]), io_log = []\<rparr>)
     \<noteq> Inr missing_fields"
  using validation_error [of "Some (JObj [(''soilType'', JStr []), (''crop'', JStr ''rice'')])"
      "\<lparr>rules_file = ParsesTo (JObj [(''rules'', JArr [])]), io_log = []\<rparr>"]
    validation_error [of "Some (JObj [(''soilType'', JStr ''sandy''), (''crop'', JStr ''maize'')])"
      "\<lparr>rules_file = ParsesTo (JObj [(''rules'', JArr [])]), io_log = []\<rparr>" "''sandy''" "''maize''"]
  by (simp add: request_field_def valid_query_def)

section \<open>Lookup\<close>

text \<open>
  Claim C4. For a valid query and a rule table that holds no \<^verbatim>\<open>null\<close> and no object
  whose \<^verbatim>\<open>soil\<close> and \<^verbatim>\<open>crop\<close> are the lowercased soil and crop of the query, the
  handler answers with status 200 and the generic response: the normalised soil and
  crop, the region, and the one fixed recommendation, whose \<^verbatim>\<open>notes\<close> say that no exact
  match was found.
\<close>

theorem no_match_fallback:
  assumes "valid_query req_body s c"
    and "rules_file w = ParsesTo data" and "rule_list data = Some rs"
    and "JNull \<notin> set rs"
    and "\<forall>kvs. JObj kvs \<in> set rs \<longrightarrow>
           map_of kvs ''soil'' \<noteq> Some (JStr (toLowerCase s)) \<or>
           map_of kvs ''crop'' \<noteq> Some (JStr (toLowerCase c))"
  shows "fst (post_api_recommend req_body w) =
     Inr \<lparr>status = 200,
          body = JObj [(''soilType'', JStr (toLowerCase s)), (''crop'', JStr (toLowerCase c)),
                       (''region'', js_or (request_field req_body ''region'') (JStr [])),
                       (''recommendation'',
                        JObj [(''sowingTime'',
                               JStr ''Consult local agri-extension for optimal window''),
                              (''irrigation'', JStr ''1-2 times/week depending on rainfall''),
                              (''fertilizer'',
                               JStr ''Balanced NPK (e.g., 10-26-26) at recommended doses''),
                              (''notes'',
                               JStr ''No exact match found. Displaying generic guidance.'')])]\<rparr>"
proof -
  have "find_js (rule_matches (toLowerCase s) (toLowerCase c)) rs = Inr None"
    using no_rule_with_pair [OF assms(4,5)] by (rule find_js_none)
  then show ?thesis
    by (simp add: handler_query [OF assms(1-3)] build_response_def generic_response_def
        generic_guidance_def)
qed

theorem no_match_fallback_witness:
  "fst (post_api_recommend (Some (JObj [(''soilType'', JStr ''clay''), (''crop'', JStr ''wheat'')]))
     (example_world [example_rule, wheat_rule]))
   = Inr \<lparr>status = 200,
          body = JObj [(''soilType'', JStr ''clay''), (''crop'', JStr ''wheat''),
                       (''region'', JStr []),
                       (''recommendation'',
                        JObj [(''sowingTime'',
                               JStr ''Consult local agri-extension for optimal window''),
                              (''irrigation'', JStr ''1-2 times/week depending on rainfall''),
                              (''fertilizer'',
                               JStr ''Balanced NPK (e.g., 10-26-26) at recommended doses''),
                              (''notes'',
                               JStr ''No exact match found. Displaying generic guidance.'')])]\<rparr>"
  using no_match_fallback [of "Some (JObj [(''soilType'', JStr ''clay''), (''crop'', JStr ''wheat'')])"
      "''clay''" "''wheat''" "example_world [example_rule, wheat_rule]"
      "JObj [(''rules'', JArr [example_rule, wheat_rule])]" "[example_rule, wheat_rule]"]
  by (auto simp add: valid_query_def request_field_def rule_list_def lower_examples
      example_world_def example_rule_def wheat_rule_def)

text \<open>
  Claim C5. Let the rule table be \<open>pre @ JObj kvs # post\<close>, where \<open>pre\<close> holds no
  \<^verbatim>\<open>null\<close> and no object whose \<^verbatim>\<open>soil\<close> and \<^verbatim>\<open>crop\<close> are the lowercased soil and crop
  of the query, and the rule \<open>kvs\<close> has that soil and crop. Then the response is built
  from \<open>kvs\<close>, whatever \<open>post\<close> holds: among several rules with the same soil and crop
  the first in table order wins.
\<close>

theorem first_match_wins:
  assumes "valid_query req_body s c"
    and "rules_file w = ParsesTo data"
    and "rule_list data = Some (pre @ JObj kvs # post)"
    and "JNull \<notin> set pre"
    and "\<forall>kvs'. JObj kvs' \<in> set pre \<longrightarrow>
           map_of kvs' ''soil'' \<noteq> Some (JStr (toLowerCase s)) \<or>
           map_of kvs' ''crop'' \<noteq> Some (JStr (toLowerCase c))"
    and "map_of kvs ''soil'' = Some (JStr (toLowerCase s))"
    and "map_of kvs ''crop'' = Some (JStr (toLowerCase c))"
  shows "fst (post_api_recommend req_body w) =
     Inr \<lparr>status = 200,
          body = JObj [(''soilType'', JStr (toLowerCase s)), (''crop'', JStr (toLowerCase c)),
                       (''region'', js_or (request_field req_body ''region'') (JStr [])),
                       (''recommendation'',
                        JObj (field ''sowingTime'' (map_of kvs ''sowingTime'') @
                              field ''irrigation'' (map_of kvs ''irrigation'') @
                              field ''fertilizer'' (map_of kvs ''fertilizer'') @
                              [(''notes'', js_or (map_of kvs ''notes'') JNull)]))]\<rparr>"
proof -
  have "rule_matches (toLowerCase s) (toLowerCase c) (JObj kvs) = Inr True"
    using assms(6,7) by (simp add: rule_matches_object)
  with no_rule_with_pair [OF assms(4,5)]
  have "find_js (rule_matches (toLowerCase s) (toLowerCase c)) (pre @ JObj kvs # post) =
      Inr (Some (JObj kvs))"
    by (rule find_js_first)
  then show ?thesis
    by (simp add: handler_query [OF assms(1-3)] build_response_object)
qed

theorem first_match_wins_witness:
  "fst (post_api_recommend (Some (JObj [(''soilType'', JStr ''clay''), (''crop'', JStr ''rice'')]))
     (example_world [wheat_rule, example_rule, later_rule]))
   = Inr \<lparr>status = 200,
          body = JObj [(''soilType'', JStr ''clay''), (''crop'', JStr ''rice''),
                       (''region'', JStr []),
                       (''recommendation'',
                        JObj [(''sowingTime'', JStr ''June''), (''irrigation'', JStr ''Daily''),
                              (''fertilizer'', JStr ''Urea''), (''notes'', JNull)])]\<rparr>"
  using first_match_wins [of "Some (JObj [(''soilType'', JStr ''clay''), (''crop'', JStr ''rice'')])"
      "''clay''" "''rice''" "example_world [wheat_rule, example_rule, later_rule]"
      "JObj [(''rules'', JArr [wheat_rule, example_rule, later_rule])]"
      "[wheat_rule]"
      "[(''soil'', JStr ''clay''), (''crop'', JStr ''rice''), (''sowingTime'', JStr ''June''),
           (''irrigation'', JStr ''Daily''), (''fertilizer'', JStr ''Urea'')]"
      "[later_rule]"]
  by (auto simp add: valid_query_def request_field_def rule_list_def lower_examples
      example_world_def example_rule_def wheat_rule_def)

section \<open>Load failure\<close>

text \<open>
  Claim C6. When reading or parsing the rule file throws, \<^verbatim>\<open>loadRules\<close> catches the
  exception, logs it and returns the empty table \<^verbatim>\<open>{ rules: [] }\<close>; every valid query is
  then answered with status 200 and the generic response (the normalised soil and crop,
  the region, and the fixed recommendation whose \<^verbatim>\<open>notes\<close> say that no exact match was
  found), and no exception leaves the handler.
\<close>

theorem load_failure_fallback:
  assumes "rules_file w = ReadThrows \<or> rules_file w = ParseThrows"
    and "valid_query req_body s c"
  shows "fst (loadRules w) = JObj [(''rules'', JArr [])]
     \<and> post_api_recommend req_body w =
         (Inr \<lparr>status = 200,
               body = JObj [(''soilType'', JStr (toLowerCase s)),
                            (''crop'', JStr (toLowerCase c)),
                            (''region'', js_or (request_field req_body ''region'') (JStr [])),
                            (''recommendation'',
                             JObj [(''sowingTime'',
                                    JStr ''Consult local agri-extension for optimal window''),
                                   (''irrigation'', JStr ''1-2 times/week depending on rainfall''),
                                   (''fertilizer'',
                                    JStr ''Balanced NPK (e.g., 10-26-26) at recommended doses''),
                                   (''notes'',
                                    JStr ''No exact match found. Displaying generic guidance.'')])]\<rparr>,
          w\<lparr>io_log := io_log w @ [ReadFileSync, ConsoleError ''Failed to read rules.json'']\<rparr>)"
  using handler_query_load_failed [OF assms(2,1)] loadRules_failed [OF assms(1)]
  by (simp add: generic_response_def generic_guidance_def)

theorem load_failure_fallback_witness:
  "post_api_recommend (Some (JObj [(''soilType'', JStr ''Clay''), (''crop'', JStr ''RICE'')]))
     \<lparr>rules_file = ParseThrows, io_log = []\<rparr>
   = (Inr \<lparr>status = 200,
           body = JObj [(''soilType'', JStr ''clay''), (''crop'', JStr ''rice''),
                        (''region'', JStr []),
                        (''recommendation'',
                         JObj [(''sowingTime'',
                                JStr ''Consult local agri-extension for optimal window''),
                               (''irrigation'', JStr ''1-2 times/week depending on rainfall''),
                               (''fertilizer'',
                                JStr ''Balanced NPK (e.g., 10-26-26) at recommended doses''),
                               (''notes'',
                                JStr ''No exact match found. Displaying generic guidance.'')])]\<rparr>,
      \<lparr>rules_file = ParseThrows,
       io_log = [ReadFileSync, ConsoleError ''Failed to read rules.json'']\<rparr>)"
  using load_failure_fallback [of "\<lparr>rules_file = ParseThrows, io_log = []\<rparr>"
      "Some (JObj [(''soilType'', JStr ''Clay''), (''crop'', JStr ''RICE'')])" "''Clay''" "''RICE''"]
  by (simp add: valid_query_def request_field_def lower_examples)

section \<open>Letter case\<close>

lemma lowercase_rule_matches:
  "lowercase_rule r \<Longrightarrow>
   rule_matches (toLowerCase s) (toLowerCase c) r = Inr (same_pair_ci s c r)"
  unfolding lowercase_rule_def same_pair_ci_def rule_key_def rule_matches_def
  by (auto split: json.splits option.splits)

lemma find_js_lowercase:
  "list_all lowercase_rule rs \<Longrightarrow>
   find_js (rule_matches (toLowerCase s) (toLowerCase c)) rs = Inr (List.find (same_pair_ci s c) rs)"
  by (induction rs) (simp_all add: lowercase_rule_matches)

lemma recommendation_of_rule:
  "recommendation_field
     \<lparr>status = st,
      body = JObj [(''soilType'', a), (''crop'', b), (''region'', g),
                   (''recommendation'',
                    JObj (field ''sowingTime'' (map_of kvs ''sowingTime'') @
                          field ''irrigation'' (map_of kvs ''irrigation'') @
                          field ''fertilizer'' (map_of kvs ''fertilizer'') @
                          [(''notes'', n)]))]\<rparr> k =
   (if k = ''sowingTime'' \<or> k = ''irrigation'' \<or> k = ''fertilizer'' then map_of kvs k
    else if k = ''notes'' then Some n else None)"
  unfolding recommendation_field_def response_field_def
  by (cases "map_of kvs ''sowingTime''"; cases "map_of kvs ''irrigation''";
      cases "map_of kvs ''fertilizer''") simp_all

lemma lower_more:
  "toLowerCase ''CLAY'' = ''clay''" "toLowerCase ''Rice'' = ''rice''"
  by code_simp+

lemma capitalised_query:
  "post_api_recommend (Some (JObj [(''soilType'', JStr ''clay''), (''crop'', JStr ''rice'')]))
         (example_world [capitalised_rule])
       = (Inr (generic_response ''clay'' ''rice'' None),
          \<lparr>rules_file = ParsesTo (JObj [(''rules'', JArr [capitalised_rule])]),
           io_log = [ReadFileSync]\<rparr>)"
  by (simp add: post_api_recommend_def loadRules_def resolve_def rule_matches_def
      build_response_def example_world_def capitalised_rule_def lower_examples)

text \<open>
  Claim C1, as amended. Only the query is lowercased (lines 42 and 43); the callback
  compares the stored \<^verbatim>\<open>soil\<close> and \<^verbatim>\<open>crop\<close> of a rule as they are. So for a rule table
  whose rules store their keys in lower case, and a valid query whose pair is present in
  the table up to letter case, the response carries the stored \<^verbatim>\<open>sowingTime\<close>,
  \<^verbatim>\<open>irrigation\<close> and \<^verbatim>\<open>fertilizer\<close> of the first rule with that pair; and any other
  valid query that differs from it in letter case only gets the same result.
\<close>

theorem lowercase_table_lookup:
  assumes "valid_query req_body s c"
    and "rules_file w = ParsesTo data" and "rule_list data = Some rs"
    and "list_all lowercase_rule rs"
    and "List.find (same_pair_ci s c) rs = Some (JObj kvs)"
  shows "(\<exists>r. fst (post_api_recommend req_body w) = Inr r \<and>
            recommendation_field r ''sowingTime'' = map_of kvs ''sowingTime'' \<and>
            recommendation_field r ''irrigation'' = map_of kvs ''irrigation'' \<and>
            recommendation_field r ''fertilizer'' = map_of kvs ''fertilizer'')
     \<and> (valid_query req_body' s' c' \<and> toLowerCase s' = toLowerCase s \<and>
           toLowerCase c' = toLowerCase c \<and>
           request_field req_body' ''region'' = request_field req_body ''region''
           \<longrightarrow> post_api_recommend req_body' w = post_api_recommend req_body w)"
proof
  have "find_js (rule_matches (toLowerCase s) (toLowerCase c)) rs = Inr (Some (JObj kvs))"
    using find_js_lowercase [OF assms(4)] assms(5) by simp
  then have "fst (post_api_recommend req_body w) =
      build_response (toLowerCase s) (toLowerCase c) (request_field req_body ''region'')
        (Some (JObj kvs))"
    by (simp add: handler_query [OF assms(1-3)])
  then show "\<exists>r. fst (post_api_recommend req_body w) = Inr r \<and>
            recommendation_field r ''sowingTime'' = map_of kvs ''sowingTime'' \<and>
            recommendation_field r ''irrigation'' = map_of kvs ''irrigation'' \<and>
            recommendation_field r ''fertilizer'' = map_of kvs ''fertilizer''"
    by (simp add: build_response_object recommendation_of_rule)
next
  show "valid_query req_body' s' c' \<and> toLowerCase s' = toLowerCase s \<and>
           toLowerCase c' = toLowerCase c \<and>
           request_field req_body' ''region'' = request_field req_body ''region''
           \<longrightarrow> post_api_recommend req_body' w = post_api_recommend req_body w"
  proof
    assume h: "valid_query req_body' s' c' \<and> toLowerCase s' = toLowerCase s \<and>
           toLowerCase c' = toLowerCase c \<and>
           request_field req_body' ''region'' = request_field req_body ''region''"
    then have v: "valid_query req_body' s' c'"
      and e: "toLowerCase s' = toLowerCase s" "toLowerCase c' = toLowerCase c"
        "request_field req_body' ''region'' = request_field req_body ''region''"
      by simp_all
    show "post_api_recommend req_body' w = post_api_recommend req_body w"
      by (simp only: handler_query [OF v assms(2,3)] handler_query [OF assms(1-3)] e)
  qed
qed

theorem lowercase_table_lookup_witness:
  "(\<exists>r. fst (post_api_recommend (Some (JObj [(''soilType'', JStr ''CLAY''), (''crop'', JStr ''Rice'')]))
             (example_world [example_rule, later_rule])) = Inr r \<and>
        recommendation_field r ''sowingTime'' = Some (JStr ''June'') \<and>
        recommendation_field r ''irrigation'' = Some (JStr ''Daily'') \<and>
        recommendation_field r ''fertilizer'' = Some (JStr ''Urea''))
   \<and> post_api_recommend (Some (JObj [(''soilType'', JStr ''clay''), (''crop'', JStr ''RICE'')]))
         (example_world [example_rule, later_rule])
     = post_api_recommend (Some (JObj [(''soilType'', JStr ''CLAY''), (''crop'', JStr ''Rice'')]))
         (example_world [example_rule, later_rule])"
  using lowercase_table_lookup [of "Some (JObj [(''soilType'', JStr ''CLAY''), (''crop'', JStr ''Rice'')])"
      "''CLAY''" "''Rice''" "example_world [example_rule, later_rule]"
      "JObj [(''rules'', JArr [example_rule, later_rule])]" "[example_rule, later_rule]"
      "[(''soil'', JStr ''clay''), (''crop'', JStr ''rice''), (''sowingTime'', JStr ''June''),
           (''irrigation'', JStr ''Daily''), (''fertilizer'', JStr ''Urea'')]"
      "Some (JObj [(''soilType'', JStr ''clay''), (''crop'', JStr ''RICE'')])" "''clay''" "''RICE''"]
  by (simp add: valid_query_def request_field_def rule_list_def lower_examples lower_more
      example_world_def example_rule_def later_rule_def lowercase_rule_def same_pair_ci_def
      rule_key_def)

text \<open>
  Claim C1 as stated fails on a table that stores a key with capitals: the query
  \<^verbatim>\<open>clay\<close>/\<^verbatim>\<open>rice\<close> is present up to letter case in a table whose only rule is keyed
  \<^verbatim>\<open>Clay\<close>/\<^verbatim>\<open>Rice\<close> with sowing time \<^verbatim>\<open>June\<close>, and the handler answers with the
  generic guidance instead.
\<close>

theorem stored_case_counterexample:
  "valid_query (Some (JObj [(''soilType'', JStr ''clay''), (''crop'', JStr ''rice'')])) ''clay'' ''rice''
   \<and> rules_file (example_world [capitalised_rule]) = ParsesTo (JObj [(''rules'', JArr [capitalised_rule])])
   \<and> rule_list (JObj [(''rules'', JArr [capitalised_rule])]) = Some [capitalised_rule]
   \<and> List.find (same_pair_ci ''clay'' ''rice'') [capitalised_rule] = Some capitalised_rule
   \<and> get_prop capitalised_rule ''sowingTime'' = Inr (Some (JStr ''June''))
   \<and> fst (post_api_recommend (Some (JObj [(''soilType'', JStr ''clay''), (''crop'', JStr ''rice'')]))
         (example_world [capitalised_rule]))
       = Inr (generic_response ''clay'' ''rice'' None)
   \<and> recommendation_field (generic_response ''clay'' ''rice'' None) ''sowingTime''
       \<noteq> Some (JStr ''June'')"
  by (simp add: valid_query_def request_field_def rule_list_def lower_examples lower_more
      example_world_def capitalised_rule_def same_pair_ci_def rule_key_def
      capitalised_query [unfolded example_world_def capitalised_rule_def] generic_fields)

section \<open>Shape of the response\<close>

lemma resolve_rule_list:
  "String soil = Inr s \<Longrightarrow> String crop = Inr c \<Longrightarrow> rule_list data = Some rs \<Longrightarrow>
   resolve data soil crop region =
     (case find_js (rule_matches (toLowerCase s) (toLowerCase c)) rs of
        Inl e \<Rightarrow> Inl e
      | Inr match \<Rightarrow> build_response (toLowerCase s) (toLowerCase c) region match)"
  unfolding resolve_def rule_list_def
  by (auto split: sum.splits json.splits)

lemma handler_success:
  assumes "post_api_recommend req_body w = (Inr r, w')" and "status r = 200"
  shows "resolve (fst (loadRules w)) (request_field req_body ''soilType'')
           (request_field req_body ''crop'') (request_field req_body ''region'') = Inr r"
proof (cases "truthy_value (request_field req_body ''soilType'') \<and>
    truthy_value (request_field req_body ''crop'')")
  case True
  then show ?thesis using assms(1) by (simp add: handler_valid)
next
  case False
  then have "post_api_recommend req_body w = (Inr missing_fields, w)"
    by (intro handler_invalid) blast
  with assms(1) have "r = missing_fields" by simp
  with assms(2) show ?thesis by (simp add: missing_fields_def)
qed

lemma resolve_success:
  "resolve data soil crop region = Inr r \<Longrightarrow>
   \<exists>s c match. String soil = Inr s \<and> String crop = Inr c \<and>
     build_response (toLowerCase s) (toLowerCase c) region match = Inr r"
  unfolding resolve_def by (auto split: sum.splits)

lemma rule_response_fields:
  "rule_response ns nc region m = Inr r \<Longrightarrow>
   response_field r ''soilType'' = Some (JStr ns) \<and>
   response_field r ''crop'' = Some (JStr nc) \<and>
   response_field r ''region'' = Some (js_or region (JStr []))"
  unfolding rule_response_def
  by (auto simp add: response_field_def split: sum.splits)

lemma build_response_fields:
  "build_response ns nc region match = Inr r \<Longrightarrow>
   response_field r ''soilType'' = Some (JStr ns) \<and>
   response_field r ''crop'' = Some (JStr nc) \<and>
   response_field r ''region'' = Some (js_or region (JStr []))"
  unfolding build_response_def
  by (auto simp add: generic_response_def response_field_def
      dest: rule_response_fields split: option.splits if_splits)

lemma example_query:
  "post_api_recommend
     (Some (JObj [(''soilType'', JStr ''Clay''), (''crop'', JStr ''RICE''),
                  (''region'', JStr ''Punjab'')]))
     (example_world [example_rule])
   = (Inr \<lparr>status = 200,
          body = JObj [(''soilType'', JStr ''clay''), (''crop'', JStr ''rice''),
                       (''region'', JStr ''Punjab''),
                       (''recommendation'',
                        JObj [(''sowingTime'', JStr ''June''), (''irrigation'', JStr ''Daily''),
                              (''fertilizer'', JStr ''Urea''), (''notes'', JNull)])]\<rparr>,
      \<lparr>rules_file = ParsesTo (JObj [(''rules'', JArr [example_rule])]),
       io_log = [ReadFileSync]\<rparr>)"
  by (simp add: post_api_recommend_def loadRules_def resolve_def rule_matches_def
      build_response_def rule_response_def example_world_def example_rule_def lower_examples)

lemma fallback_query:
  "post_api_recommend (Some (JObj [(''soilType'', JStr ''sandy''), (''crop'', JStr ''maize'')]))
     (example_world [example_rule])
   = (Inr (generic_response ''sandy'' ''maize'' None),
      \<lparr>rules_file = ParsesTo (JObj [(''rules'', JArr [example_rule])]),
       io_log = [ReadFileSync]\<rparr>)"
  by (simp add: post_api_recommend_def loadRules_def resolve_def rule_matches_def
      build_response_def example_world_def example_rule_def lower_examples)

lemma js_or_null: "js_or v JNull = JNull \<longleftrightarrow> \<not> truthy_value v"
proof (cases v)
  case None
  then show ?thesis by simp
next
  case (Some x)
  then show ?thesis by (cases x) simp_all
qed

lemma js_or_truthy: "truthy_value v \<Longrightarrow> Some (js_or v d) = v"
  by (cases v) simp_all

text \<open>
  Claim C2. Whenever the handler answers with status 200, on a match or with the generic
  guidance, the response's \<^verbatim>\<open>soilType\<close> and \<^verbatim>\<open>crop\<close> are the lowercased string
  conversions of the query's values (for a valid query with the strings \<open>sq\<close> and
  \<open>cq\<close>, their lower case), and its \<^verbatim>\<open>region\<close> is the query's region string
  when there is one and the empty string when the query has no region. When the scan of
  the rule table finds the rule \<open>kvs\<close>, the nested recommendation carries that rule's
  \<^verbatim>\<open>sowingTime\<close>, \<^verbatim>\<open>irrigation\<close> and \<^verbatim>\<open>fertilizer\<close>, and its \<^verbatim>\<open>notes\<close> are
  \<^verbatim>\<open>null\<close> when the rule has none. In particular, on the table holding the rule
  clay/rice/June/Daily/Urea, the query Clay/RICE/Punjab is answered with exactly
  \<^verbatim>\<open>{soilType: "clay", crop: "rice", region: "Punjab", recommendation: {sowingTime: "June",
  irrigation: "Daily", fertilizer: "Urea", notes: null}}\<close>.
\<close>

theorem response_shape:
  assumes "post_api_recommend req_body w = (Inr r, w')" and "status r = 200"
  shows "(\<exists>s c. String (request_field req_body ''soilType'') = Inr s \<and>
            String (request_field req_body ''crop'') = Inr c \<and>
            response_field r ''soilType'' = Some (JStr (toLowerCase s)) \<and>
            response_field r ''crop'' = Some (JStr (toLowerCase c)))
     \<and> (valid_query req_body sq cq
          \<longrightarrow> response_field r ''soilType'' = Some (JStr (toLowerCase sq)) \<and>
              response_field r ''crop'' = Some (JStr (toLowerCase cq)))
     \<and> (request_field req_body ''region'' = Some (JStr g)
          \<longrightarrow> response_field r ''region'' = Some (JStr g))
     \<and> (request_field req_body ''region'' = None
          \<longrightarrow> response_field r ''region'' = Some (JStr []))
     \<and> (rules_file w = ParsesTo data \<and> rule_list data = Some rs \<and>
         String (request_field req_body ''soilType'') = Inr s0 \<and>
         String (request_field req_body ''crop'') = Inr c0 \<and>
         find_js (rule_matches (toLowerCase s0) (toLowerCase c0)) rs = Inr (Some (JObj kvs))
          \<longrightarrow> recommendation_field r ''sowingTime'' = map_of kvs ''sowingTime'' \<and>
              recommendation_field r ''irrigation'' = map_of kvs ''irrigation'' \<and>
              recommendation_field r ''fertilizer'' = map_of kvs ''fertilizer'' \<and>
              (map_of kvs ''notes'' = None \<longrightarrow> recommendation_field r ''notes'' = Some JNull))
     \<and> fst (post_api_recommend
           (Some (JObj [(''soilType'', JStr ''Clay''), (''crop'', JStr ''RICE''),
                        (''region'', JStr ''Punjab'')]))
           (example_world
              [JObj [(''soil'', JStr ''clay''), (''crop'', JStr ''rice''),
                     (''sowingTime'', JStr ''June''), (''irrigation'', JStr ''Daily''),
                     (''fertilizer'', JStr ''Urea'')]]))
        = Inr \<lparr>status = 200,
               body = JObj [(''soilType'', JStr ''clay''), (''crop'', JStr ''rice''),
                            (''region'', JStr ''Punjab''),
                            (''recommendation'',
                             JObj [(''sowingTime'', JStr ''June''),
                                   (''irrigation'', JStr ''Daily''),
                                   (''fertilizer'', JStr ''Urea''), (''notes'', JNull)])]\<rparr>"
proof -
  let ?soil = "request_field req_body ''soilType''"
  let ?crop = "request_field req_body ''crop''"
  let ?region = "request_field req_body ''region''"
  have res: "resolve (fst (loadRules w)) ?soil ?crop ?region = Inr r"
    using assms by (rule handler_success)
  then obtain s c match where sc: "String ?soil = Inr s" "String ?crop = Inr c"
    and b: "build_response (toLowerCase s) (toLowerCase c) ?region match = Inr r"
    using resolve_success by blast
  note f = build_response_fields [OF b]
  have 1: "\<exists>s c. String ?soil = Inr s \<and> String ?crop = Inr c \<and>
            response_field r ''soilType'' = Some (JStr (toLowerCase s)) \<and>
            response_field r ''crop'' = Some (JStr (toLowerCase c))"
    using sc f by blast
  have q: "valid_query req_body sq cq
          \<longrightarrow> response_field r ''soilType'' = Some (JStr (toLowerCase sq)) \<and>
              response_field r ''crop'' = Some (JStr (toLowerCase cq))"
    using sc f by (auto simp add: valid_query_def)
  have 2: "?region = Some (JStr g) \<longrightarrow> response_field r ''region'' = Some (JStr g)"
    using f by simp
  have 3: "?region = None \<longrightarrow> response_field r ''region'' = Some (JStr [])"
    using f by simp
  have 4: "rules_file w = ParsesTo data \<and> rule_list data = Some rs \<and>
         String ?soil = Inr s0 \<and> String ?crop = Inr c0 \<and>
         find_js (rule_matches (toLowerCase s0) (toLowerCase c0)) rs = Inr (Some (JObj kvs))
          \<longrightarrow> recommendation_field r ''sowingTime'' = map_of kvs ''sowingTime'' \<and>
              recommendation_field r ''irrigation'' = map_of kvs ''irrigation'' \<and>
              recommendation_field r ''fertilizer'' = map_of kvs ''fertilizer'' \<and>
              (map_of kvs ''notes'' = None \<longrightarrow> recommendation_field r ''notes'' = Some JNull)"
  proof
    assume h: "rules_file w = ParsesTo data \<and> rule_list data = Some rs \<and>
         String ?soil = Inr s0 \<and> String ?crop = Inr c0 \<and>
         find_js (rule_matches (toLowerCase s0) (toLowerCase c0)) rs = Inr (Some (JObj kvs))"
    then have "fst (loadRules w) = data" by (simp add: loadRules_parsed)
    with res h have "build_response (toLowerCase s0) (toLowerCase c0) ?region (Some (JObj kvs)) = Inr r"
      by (simp add: resolve_rule_list [of ?soil s0 ?crop c0 data rs])
    then have "r = \<lparr>status = 200,
          body = JObj [(''soilType'', JStr (toLowerCase s0)), (''crop'', JStr (toLowerCase c0)),
                       (''region'', js_or ?region (JStr [])),
                       (''recommendation'',
                        JObj (field ''sowingTime'' (map_of kvs ''sowingTime'') @
                              field ''irrigation'' (map_of kvs ''irrigation'') @
                              field ''fertilizer'' (map_of kvs ''fertilizer'') @
                              [(''notes'', js_or (map_of kvs ''notes'') JNull)]))]\<rparr>"
      by (simp add: build_response_object)
    then show "recommendation_field r ''sowingTime'' = map_of kvs ''sowingTime'' \<and>
              recommendation_field r ''irrigation'' = map_of kvs ''irrigation'' \<and>
              recommendation_field r ''fertilizer'' = map_of kvs ''fertilizer'' \<and>
              (map_of kvs ''notes'' = None \<longrightarrow> recommendation_field r ''notes'' = Some JNull)"
      by (simp add: recommendation_of_rule)
  qed
  have 5: "fst (post_api_recommend
           (Some (JObj [(''soilType'', JStr ''Clay''), (''crop'', JStr ''RICE''),
                        (''region'', JStr ''Punjab'')]))
           (example_world
              [JObj [(''soil'', JStr ''clay''), (''crop'', JStr ''rice''),
                     (''sowingTime'', JStr ''June''), (''irrigation'', JStr ''Daily''),
                     (''fertilizer'', JStr ''Urea'')]]))
        = Inr \<lparr>status = 200,
               body = JObj [(''soilType'', JStr ''clay''), (''crop'', JStr ''rice''),
                            (''region'', JStr ''Punjab''),
                            (''recommendation'',
                             JObj [(''sowingTime'', JStr ''June''),
                                   (''irrigation'', JStr ''Daily''),
                                   (''fertilizer'', JStr ''Urea''), (''notes'', JNull)])]\<rparr>"
    using example_query by (simp add: example_rule_def)
  from 1 q 2 3 4 5 show ?thesis by blast
qed

theorem response_shape_witness:
  "response_field
     \<lparr>status = 200,
      body = JObj [(''soilType'', JStr ''clay''), (''crop'', JStr ''rice''),
                   (''region'', JStr ''Punjab''),
                   (''recommendation'',
                    JObj [(''sowingTime'', JStr ''June''), (''irrigation'', JStr ''Daily''),
                          (''fertilizer'', JStr ''Urea''), (''notes'', JNull)])]\<rparr> ''soilType''
     = Some (JStr ''clay'')
   \<and> response_field
     \<lparr>status = 200,
      body = JObj [(''soilType'', JStr ''clay''), (''crop'', JStr ''rice''),
                   (''region'', JStr ''Punjab''),
                   (''recommendation'',
                    JObj [(''sowingTime'', JStr ''June''), (''irrigation'', JStr ''Daily''),
                          (''fertilizer'', JStr ''Urea''), (''notes'', JNull)])]\<rparr> ''region''
     = Some (JStr ''Punjab'')
   \<and> recommendation_field
     \<lparr>status = 200,
      body = JObj [(''soilType'', JStr ''clay''), (''crop'', JStr ''rice''),
                   (''region'', JStr ''Punjab''),
                   (''recommendation'',
                    JObj [(''sowingTime'', JStr ''June''), (''irrigation'', JStr ''Daily''),
                          (''fertilizer'', JStr ''Urea''), (''notes'', JNull)])]\<rparr> ''sowingTime''
     = Some (JStr ''June'')
   \<and> response_field (generic_response ''sandy'' ''maize'' None) ''region'' = Some (JStr [])"
  using response_shape [OF example_query, where g = "''Punjab''"
      and data = "JObj [(''rules'', JArr [example_rule])]" and rs = "[example_rule]"
      and ?s0.0 = "''Clay''" and ?c0.0 = "''RICE''" and sq = "''Clay''" and cq = "''RICE''"
      and kvs = "[(''soil'', JStr ''clay''), (''crop'', JStr ''rice''),
                  (''sowingTime'', JStr ''June''), (''irrigation'', JStr ''Daily''),
                  (''fertilizer'', JStr ''Urea'')]"]
    response_shape [OF fallback_query]
  by (simp add: request_field_def valid_query_def rule_list_def rule_matches_def
      example_world_def example_rule_def lower_examples generic_response_def)

text \<open>
  Claim C10. For a valid query whose scan finds the rule \<open>kvs\<close>, the response's
  \<^verbatim>\<open>recommendation.notes\<close> is \<^verbatim>\<open>null\<close> exactly when the rule's \<^verbatim>\<open>notes\<close> is falsy
  (absent, \<^verbatim>\<open>null\<close>, \<^verbatim>\<open>false\<close>, zero or the empty string); in particular the empty string
  gives \<^verbatim>\<open>null\<close>, and truthy notes are passed on as they are.
\<close>

theorem notes_null_iff:
  assumes "valid_query req_body s c"
    and "rules_file w = ParsesTo data" and "rule_list data = Some rs"
    and "find_js (rule_matches (toLowerCase s) (toLowerCase c)) rs = Inr (Some (JObj kvs))"
  shows "\<exists>r. fst (post_api_recommend req_body w) = Inr r \<and>
     (recommendation_field r ''notes'' = Some JNull \<longleftrightarrow> \<not> truthy_value (map_of kvs ''notes'')) \<and>
     (map_of kvs ''notes'' = Some (JStr []) \<longrightarrow> recommendation_field r ''notes'' = Some JNull) \<and>
     (truthy_value (map_of kvs ''notes'')
        \<longrightarrow> recommendation_field r ''notes'' = map_of kvs ''notes'')"
proof -
  have "fst (post_api_recommend req_body w) =
      build_response (toLowerCase s) (toLowerCase c) (request_field req_body ''region'')
        (Some (JObj kvs))"
    by (simp add: handler_query [OF assms(1-3)] assms(4))
  moreover have "map_of kvs ''notes'' = Some (JStr []) \<longrightarrow> js_or (map_of kvs ''notes'') JNull = JNull"
    by simp
  ultimately show ?thesis
    by (simp add: build_response_object recommendation_of_rule js_or_null js_or_truthy)
qed

theorem notes_null_iff_witness:
  "(\<exists>r. fst (post_api_recommend (Some (JObj [(''soilType'', JStr ''Clay''), (''crop'', JStr ''RICE'')]))
           (example_world
              [JObj [(''soil'', JStr ''clay''), (''crop'', JStr ''rice''),
                     (''sowingTime'', JStr ''June''), (''notes'', JStr [])]])) = Inr r \<and>
       recommendation_field r ''notes'' = Some JNull)
   \<and> (\<exists>r. fst (post_api_recommend (Some (JObj [(''soilType'', JStr ''Clay''), (''crop'', JStr ''RICE'')]))
           (example_world [later_rule])) = Inr r \<and>
       recommendation_field r ''notes'' = Some (JStr ''Second entry''))"
  using notes_null_iff [of "Some (JObj [(''soilType'', JStr ''Clay''), (''crop'', JStr ''RICE'')])"
      "''Clay''" "''RICE''"
      "example_world
              [JObj [(''soil'', JStr ''clay''), (''crop'', JStr ''rice''),
                     (''sowingTime'', JStr ''June''), (''notes'', JStr [])]]"
      "JObj [(''rules'', JArr [JObj [(''soil'', JStr ''clay''), (''crop'', JStr ''rice''),
                     (''sowingTime'', JStr ''June''), (''notes'', JStr [])]])]"
      "[JObj [(''soil'', JStr ''clay''), (''crop'', JStr ''rice''),
                     (''sowingTime'', JStr ''June''), (''notes'', JStr [])]]"
      "[(''soil'', JStr ''clay''), (''crop'', JStr ''rice''),
                     (''sowingTime'', JStr ''June''), (''notes'', JStr [])]"]
    notes_null_iff [of "Some (JObj [(''soilType'', JStr ''Clay''), (''crop'', JStr ''RICE'')])"
      "''Clay''" "''RICE''" "example_world [later_rule]"
      "JObj [(''rules'', JArr [later_rule])]" "[later_rule]"
      "[(''soil'', JStr ''clay''), (''crop'', JStr ''rice''), (''sowingTime'', JStr ''July''),
        (''irrigation'', JStr ''Weekly''), (''fertilizer'', JStr ''DAP''),
        (''notes'', JStr ''Second entry'')]"]
  by (auto simp add: valid_query_def request_field_def rule_list_def rule_matches_def
      example_world_def later_rule_def lower_examples)

section \<open>Effects and determinism\<close>

lemma loadRules_file: "rules_file (snd (loadRules w)) = rules_file w"
  by (simp add: loadRules_def split: rules_json.splits)

lemma loadRules_fst: "rules_file w2 = rules_file w \<Longrightarrow> fst (loadRules w2) = fst (loadRules w)"
  by (simp add: loadRules_def split: rules_json.splits)

lemma loadRules_log:
  "io_log (snd (loadRules w)) =
     io_log w @ ReadFileSync #
       (case rules_file w of
          ParsesTo data \<Rightarrow> []
        | _ \<Rightarrow> [ConsoleError ''Failed to read rules.json''])"
  by (simp add: loadRules_def split: rules_json.splits)

lemma handler_keeps_file: "rules_file (snd (post_api_recommend req_body w)) = rules_file w"
proof (cases "truthy_value (request_field req_body ''soilType'') \<and>
    truthy_value (request_field req_body ''crop'')")
  case True
  then show ?thesis by (simp add: handler_valid loadRules_file)
next
  case False
  then have "post_api_recommend req_body w = (Inr missing_fields, w)"
    by (intro handler_invalid) blast
  then show ?thesis by simp
qed

lemma handler_reads_file:
  assumes "rules_file w2 = rules_file w"
  shows "fst (post_api_recommend req_body w2) = fst (post_api_recommend req_body w)"
proof (cases "truthy_value (request_field req_body ''soilType'') \<and>
    truthy_value (request_field req_body ''crop'')")
  case True
  then show ?thesis by (simp add: handler_valid loadRules_fst [OF assms])
next
  case False
  then have "\<And>v. post_api_recommend req_body v = (Inr missing_fields, v)"
    by (intro handler_invalid) blast
  then show ?thesis by simp
qed

text \<open>
  Claim C8. The handler never changes the rule file, and its response depends on the
  world through the rule file only. So asking the same query a second time, in the world
  the first call left behind, gives the same response; and so does asking it in any
  world whose rule file is the same.
\<close>

theorem repeated_query_same_response:
  "fst (post_api_recommend req_body (snd (post_api_recommend req_body w)))
     = fst (post_api_recommend req_body w)
   \<and> rules_file (snd (post_api_recommend req_body w)) = rules_file w
   \<and> (rules_file w2 = rules_file w
        \<longrightarrow> fst (post_api_recommend req_body w2) = fst (post_api_recommend req_body w))"
  using handler_reads_file [OF handler_keeps_file] handler_keeps_file handler_reads_file
  by blast

theorem repeated_query_same_response_witness:
  "fst (post_api_recommend (Some (JObj [(''soilType'', JStr ''sandy''), (''crop'', JStr ''maize'')]))
     \<lparr>rules_file = ParsesTo (JObj [(''rules'', JArr [example_rule])]), io_log = [ReadFileSync]\<rparr>)
   = Inr (generic_response ''sandy'' ''maize'' None)"
  using repeated_query_same_response
    [of "Some (JObj [(''soilType'', JStr ''sandy''), (''crop'', JStr ''maize'')])"
        "example_world [example_rule]"
        "\<lparr>rules_file = ParsesTo (JObj [(''rules'', JArr [example_rule])]),
          io_log = [ReadFileSync]\<rparr>"]
  by (simp add: fallback_query [unfolded example_world_def] example_world_def)

text \<open>
  Claim C7, as amended. The table is not loaded once: the handler calls \<^verbatim>\<open>loadRules\<close>
  on every request that passes validation (line 41). So the response is a function of
  the query and of the rule file as it is when the request arrives; such a request reads
  the file once, and logs to the console when the load fails; a request that fails
  validation performs no input or output; and no request changes the rule file.
\<close>

theorem resolution_effects:
  "rules_file (snd (post_api_recommend req_body w)) = rules_file w
   \<and> (rules_file w2 = rules_file w
        \<longrightarrow> fst (post_api_recommend req_body w2) = fst (post_api_recommend req_body w))
   \<and> (\<not> truthy_value (request_field req_body ''soilType'') \<or>
       \<not> truthy_value (request_field req_body ''crop'')
        \<longrightarrow> snd (post_api_recommend req_body w) = w)
   \<and> (truthy_value (request_field req_body ''soilType'') \<and>
       truthy_value (request_field req_body ''crop'')
        \<longrightarrow> io_log (snd (post_api_recommend req_body w)) =
              io_log w @ ReadFileSync #
                (case rules_file w of
                   ParsesTo data \<Rightarrow> []
                 | _ \<Rightarrow> [ConsoleError ''Failed to read rules.json'']))"
proof (intro conjI impI)
  show "rules_file (snd (post_api_recommend req_body w)) = rules_file w"
    by (rule handler_keeps_file)
next
  assume "rules_file w2 = rules_file w"
  then show "fst (post_api_recommend req_body w2) = fst (post_api_recommend req_body w)"
    by (rule handler_reads_file)
next
  assume "\<not> truthy_value (request_field req_body ''soilType'') \<or>
       \<not> truthy_value (request_field req_body ''crop'')"
  then show "snd (post_api_recommend req_body w) = w"
    by (simp add: handler_invalid)
next
  assume "truthy_value (request_field req_body ''soilType'') \<and>
       truthy_value (request_field req_body ''crop'')"
  then show "io_log (snd (post_api_recommend req_body w)) =
              io_log w @ ReadFileSync #
                (case rules_file w of
                   ParsesTo data \<Rightarrow> []
                 | _ \<Rightarrow> [ConsoleError ''Failed to read rules.json''])"
    by (simp add: handler_valid loadRules_log)
qed

theorem resolution_effects_witness:
  "io_log (snd (post_api_recommend
       (Some (JObj [(''soilType'', JStr ''sandy''), (''crop'', JStr ''maize'')]))
       \<lparr>rules_file = ReadThrows, io_log = []\<rparr>))
     = [ReadFileSync, ConsoleError ''Failed to read rules.json'']
   \<and> snd (post_api_recommend (Some (JObj [(''soilType'', JStr []), (''crop'', JStr ''rice'')]))
       \<lparr>rules_file = ReadThrows, io_log = []\<rparr>) = \<lparr>rules_file = ReadThrows, io_log = []\<rparr>
   \<and> fst (post_api_recommend (Some (JObj [(''soilType'', JStr ''sandy''), (''crop'', JStr ''maize'')]))
       \<lparr>rules_file = ReadThrows, io_log = [ReadFileSync]\<rparr>)
     = fst (post_api_recommend (Some (JObj [(''soilType'', JStr ''sandy''), (''crop'', JStr ''maize'')]))
       \<lparr>rules_file = ReadThrows, io_log = []\<rparr>)"
  using resolution_effects [of "Some (JObj [(''soilType'', JStr ''sandy''), (''crop'', JStr ''maize'')])"
      "\<lparr>rules_file = ReadThrows, io_log = []\<rparr>" "\<lparr>rules_file = ReadThrows, io_log = [ReadFileSync]\<rparr>"]
    resolution_effects [of "Some (JObj [(''soilType'', JStr []), (''crop'', JStr ''rice'')])"
      "\<lparr>rules_file = ReadThrows, io_log = []\<rparr>" "\<lparr>rules_file = ReadThrows, io_log = []\<rparr>"]
  by (simp add: request_field_def)

text \<open>
  Claim C7 as stated fails: a valid query reads the rule file, the same query asked again
  reads it again, and a failed load writes to the console.
\<close>

theorem per_request_read_counterexample:
  "io_log (snd (post_api_recommend
       (Some (JObj [(''soilType'', JStr ''sandy''), (''crop'', JStr ''maize'')]))
       (example_world [example_rule])))
     = [ReadFileSync]
   \<and> io_log (snd (post_api_recommend
       (Some (JObj [(''soilType'', JStr ''sandy''), (''crop'', JStr ''maize'')]))
       (snd (post_api_recommend
          (Some (JObj [(''soilType'', JStr ''sandy''), (''crop'', JStr ''maize'')]))
          (example_world [example_rule])))))
     = [ReadFileSync, ReadFileSync]
   \<and> snd (post_api_recommend
       (Some (JObj [(''soilType'', JStr ''sandy''), (''crop'', JStr ''maize'')]))
       \<lparr>rules_file = ParseThrows, io_log = []\<rparr>)
     \<noteq> \<lparr>rules_file = ParseThrows, io_log = []\<rparr>"
  by (simp add: post_api_recommend_def loadRules_def example_world_def)

section \<open>Totality\<close>










lemma null_after_match_query:
  "post_api_recommend (Some (JObj [(''soilType'', JStr ''clay''), (''crop'', JStr ''rice'')]))
     (example_world [example_rule, JNull])
   = (Inr \<lparr>status = 200,
          body = JObj [(''soilType'', JStr ''clay''), (''crop'', JStr ''rice''),
                       (''region'', JStr []),
                       (''recommendation'',
                        JObj [(''sowingTime'', JStr ''June''), (''irrigation'', JStr ''Daily''),
                              (''fertilizer'', JStr ''Urea''), (''notes'', JNull)])]\<rparr>,
      \<lparr>rules_file = ParsesTo (JObj [(''rules'', JArr [example_rule, JNull])]),
       io_log = [ReadFileSync]\<rparr>)"
  by (simp add: post_api_recommend_def loadRules_def resolve_def rule_matches_def
      build_response_def rule_response_def example_world_def example_rule_def lower_examples)





end
